theory Spec2Isabelle
  imports Main
begin

section \<open>The Result type and its combinators (src/Result.ts)\<close>

text \<open>
  \<^verbatim>\<open>type Result<E, A> = Failure<E> | Success<A>\<close>: a tagged union with the fields
  \<^verbatim>\<open>failure\<close> and \<^verbatim>\<open>success\<close>. The refinements \<^verbatim>\<open>isFailure\<close> and
  \<^verbatim>\<open>isSuccess\<close> test the tag, so they are the discriminators of the datatype.
  TypeScript's unions of error types (\<^verbatim>\<open>E1 | E2\<close>) and of payload types
  (\<^verbatim>\<open>A | B\<close>) are one type variable here. Where the source returns a Failure
  at another payload type (\<^verbatim>\<open>isFailure(self) ? self : ...\<close>) the model rebuilds it
  from its field, \<open>Failure (failure self)\<close>.
\<close>

datatype ('e, 'a) Result =
    isFailure: Failure (failure: 'e)
  | isSuccess: Success (success: 'a)

definition fail :: "'e \<Rightarrow> ('e, 'a) Result" where
  "fail e = Failure e"

text \<open>The constructor \<^verbatim>\<open>of\<close> (the spec's \<^verbatim>\<open>succeed\<close>).\<close>

definition of' :: "'a \<Rightarrow> ('e, 'a) Result" where
  "of' a = Success a"

definition identity :: "'a \<Rightarrow> 'a" where
  "identity a = a"

text \<open>\<^verbatim>\<open>SK = (_, b) => b\<close> of Function.ts.\<close>

definition SK :: "'a \<Rightarrow> 'b \<Rightarrow> 'b" where
  "SK a b = b"

subsection \<open>Mapping and sequencing\<close>

definition mapBoth :: "('e \<Rightarrow> 'g) \<Rightarrow> ('a \<Rightarrow> 'b) \<Rightarrow> ('e, 'a) Result \<Rightarrow> ('g, 'b) Result" where
  "mapBoth f g fa = (if isFailure fa then fail (f (failure fa)) else of' (g (success fa)))"

text \<open>
  Modelled from the spec: \<^verbatim>\<open>bifunctor.map\<close> (Bifunctor.ts is not under src/). The
  spec derives the one-sided maps from \<^verbatim>\<open>mapBoth\<close> with the identity on the other
  branch; \<^verbatim>\<open>map\<close> transforms the Success payload and leaves a Failure as it is.
\<close>

definition bifunctor_map ::
  "(('e \<Rightarrow> 'e) \<Rightarrow> ('a \<Rightarrow> 'b) \<Rightarrow> 'fa \<Rightarrow> 'fb) \<Rightarrow> ('a \<Rightarrow> 'b) \<Rightarrow> 'fa \<Rightarrow> 'fb" where
  "bifunctor_map mapBoth_F f = mapBoth_F identity f"

text \<open>\<^verbatim>\<open>export const map = bifunctor.map(Bifunctor)\<close>, with \<^verbatim>\<open>Bifunctor = { mapBoth }\<close>.\<close>

definition map' :: "('a \<Rightarrow> 'b) \<Rightarrow> ('e, 'a) Result \<Rightarrow> ('e, 'b) Result" where
  "map' = bifunctor_map mapBoth"

definition flatMap :: "('a \<Rightarrow> ('e, 'b) Result) \<Rightarrow> ('e, 'a) Result \<Rightarrow> ('e, 'b) Result" where
  "flatMap f self = (if isFailure self then Failure (failure self) else f (success self))"

text \<open>
  Modelled from the spec: \<^verbatim>\<open>flattenable.ap\<close> (Flattenable.ts is not under src/). It
  derives \<^verbatim>\<open>ap\<close> from the \<^verbatim>\<open>map\<close> and \<^verbatim>\<open>flatMap\<close> of a Flattenable instance.
  The spec fixes the order: the function side \<^verbatim>\<open>fab\<close> is inspected first, and only
  when it holds a function is the argument side \<^verbatim>\<open>fa\<close> mapped with it.
\<close>

definition flattenable_ap ::
  "(('a \<Rightarrow> 'b) \<Rightarrow> 'fa \<Rightarrow> 'fb) \<Rightarrow> ((('a \<Rightarrow> 'b) \<Rightarrow> 'fb) \<Rightarrow> 'fab \<Rightarrow> 'fb) \<Rightarrow> 'fa \<Rightarrow> 'fab \<Rightarrow> 'fb" where
  "flattenable_ap map_F flatMap_F fa self = flatMap_F (\<lambda>f. map_F f fa) self"

text \<open>\<^verbatim>\<open>export const ap = flattenable.ap(Flattenable)\<close>, with \<^verbatim>\<open>Flattenable = { map, flatMap }\<close>.\<close>

definition ap :: "('e, 'a) Result \<Rightarrow> ('e, 'a \<Rightarrow> 'b) Result \<Rightarrow> ('e, 'b) Result" where
  "ap = flattenable_ap map' flatMap"

subsection \<open>Alternatives\<close>

definition orElse :: "('e2, 'a) Result \<Rightarrow> ('e1, 'a) Result \<Rightarrow> ('e2, 'a) Result" where
  "orElse that fa = (if isFailure fa then that else Success (success fa))"

subsection \<open>Semigroups of errors and the validated instances\<close>

text \<open>
  \<^verbatim>\<open>Semigroup<E>\<close> (Semigroup.ts is not under src/) is an object with the one curried
  member \<^verbatim>\<open>combine\<close>; Result.ts applies it as \<^verbatim>\<open>Semigroup.combine(x)(y)\<close>. The
  record keeps that shape: \<open>combine S x y\<close> is \<^verbatim>\<open>S.combine(x)(y)\<close>. The operation is
  a parameter of the development, and no law of it is assumed.
\<close>

record 'e Semigroup =
  combine :: "'e \<Rightarrow> 'e \<Rightarrow> 'e"

text \<open>
  Modelled from the spec: the string-concatenation semigroup with a separator
  (string.ts and \<^verbatim>\<open>Semigroup.intercalate\<close> are not under src/). The library is
  data-last: \<^verbatim>\<open>combine(that)(self)\<close> appends \<^verbatim>\<open>that\<close> to \<^verbatim>\<open>self\<close>, with the
  separator between them. The documentation example of \<^verbatim>\<open>getValidatedAlt\<close> in
  Result.ts (\<^verbatim>\<open>'not a string, not a number'\<close>) and the spec's worked example for the
  validated \<^verbatim>\<open>ap\<close> both fix this order.
\<close>

definition string_Semigroup_intercalate :: "string \<Rightarrow> string Semigroup" where
  "string_Semigroup_intercalate sep = \<lparr>combine = (\<lambda>that self. self @ sep @ that)\<rparr>"

text \<open>
  \<^verbatim>\<open>getValidatedApplicative(Semigroup)\<close> returns \<^verbatim>\<open>{ map, ap, of }\<close>, where
  \<^verbatim>\<open>map\<close> and \<^verbatim>\<open>of\<close> are the ones above; the model is its member \<^verbatim>\<open>ap\<close>.
\<close>

definition getValidatedApplicative_ap ::
  "'e Semigroup \<Rightarrow> ('e, 'a) Result \<Rightarrow> ('e, 'a \<Rightarrow> 'b) Result \<Rightarrow> ('e, 'b) Result" where
  "getValidatedApplicative_ap Semigroup fa fab =
     (if isFailure fab then
        (if isFailure fa then fail (combine Semigroup (failure fa) (failure fab))
         else Failure (failure fab))
      else if isFailure fa then Failure (failure fa)
      else of' ((success fab) (success fa)))"

text \<open>
  \<^verbatim>\<open>getValidatedAlt(Semigroup)\<close> returns \<^verbatim>\<open>{ orElse }\<close>; the model is that member.
\<close>

definition getValidatedAlt_orElse ::
  "'e Semigroup \<Rightarrow> ('e, 'a) Result \<Rightarrow> ('e, 'a) Result \<Rightarrow> ('e, 'a) Result" where
  "getValidatedAlt_orElse Semigroup that self =
     (if isSuccess self then self
      else if isFailure that then fail (combine Semigroup (failure that) (failure self))
      else that)"

subsection \<open>Filtering\<close>

definition separate ::
  "'e \<Rightarrow> ('e, ('a, 'b) Result) Result \<Rightarrow> ('e, 'a) Result \<times> ('e, 'b) Result" where
  "separate onEmpty self =
     (if isFailure self then (Failure (failure self), Failure (failure self))
      else if isFailure (success self) then (of' (failure (success self)), fail onEmpty)
      else (fail onEmpty, of' (success (success self))))"

subsection \<open>The stack-safe loop\<close>

text \<open>
  Modelled from the spec: \<^verbatim>\<open>flattenableRec.tailRec\<close> (FlattenableRec.ts is not under
  src/), the explicit loop that drives \<^verbatim>\<open>flatMapRec\<close>. Its step function returns a
  Result whose Failure branch means "loop again with this value" and whose Success branch
  means "stop with this value":
  \<^verbatim>\<open>let ab = f(startWith); while (isFailure(ab)) ab = f(ab.failure); return ab.success\<close>.
  The loop may run forever, so the model returns an option: \<open>None\<close> is the loop that
  never stops.
\<close>

partial_function (option) tailRec :: "('a \<Rightarrow> ('a, 'b) Result) \<Rightarrow> 'a \<Rightarrow> 'b option" where
  "tailRec f startWith =
     (let ab = f startWith in
      if isFailure ab then tailRec f (failure ab) else Some (success ab))"

text \<open>
  \<^verbatim>\<open>flatMapRec(f) = flow(f, tailRec(step))\<close>: the loop starts from \<^verbatim>\<open>f(a)\<close>, and
  its state is the last value \<^verbatim>\<open>f\<close> returned.
\<close>

definition flatMapRec ::
  "('a \<Rightarrow> ('e, ('a, 'b) Result) Result) \<Rightarrow> 'a \<Rightarrow> ('e, 'b) Result option" where
  "flatMapRec f a =
     tailRec
       (\<lambda>e. if isFailure e then of' (fail (failure e))
            else if isFailure (success e) then fail (f (failure (success e)))
            else of' (of' (success (success e))))
       (f a)"

subsection \<open>Interop with functions that throw\<close>




subsection \<open>Array traversal\<close>

text \<open>
  An array is a list. The spec asks that a side-effecting \<^verbatim>\<open>f\<close> observably does not run
  on the elements after a failing one, so a call of \<^verbatim>\<open>f\<close> is modelled with its effect:
  it takes the state of the host program and returns its Result and the new state. The
  traversal threads the state through the calls in the order in which the source makes
  them; a pure \<^verbatim>\<open>f\<close> is one that returns the state as it got it.

  \<^verbatim>\<open>_.head(as)\<close> is \<^verbatim>\<open>as[0]\<close>, \<^verbatim>\<open>_.isNonEmpty(as)\<close> is \<^verbatim>\<open>as.length > 0\<close> and
  \<^verbatim>\<open>_.emptyReadonlyArray\<close> is \<^verbatim>\<open>[]\<close> (internal.ts is not under src/). The type
  \<^verbatim>\<open>NonEmptyReadonlyArray\<close> excludes the empty array; what is proved of a function on
  that type is proved for \<open>as \<noteq> []\<close>.
\<close>

definition head :: "'a list \<Rightarrow> 'a" where
  "head as = as ! 0"

definition isNonEmpty :: "'a list \<Rightarrow> bool" where
  "isNonEmpty as = (length as > 0)"

definition Zip :: "('e, 'b list) Result" where
  "Zip = of' []"

text \<open>
  The \<^verbatim>\<open>for\<close> loop of \<^verbatim>\<open>traverseNonEmptyReadonlyArrayWithIndex\<close>, with its variables
  \<^verbatim>\<open>i\<close> and \<^verbatim>\<open>out\<close>.
\<close>

function traverse_loop ::
  "(nat \<Rightarrow> 'a \<Rightarrow> 's \<Rightarrow> ('e, 'b) Result \<times> 's) \<Rightarrow> 'a list \<Rightarrow> nat \<Rightarrow> 'b list \<Rightarrow> 's
     \<Rightarrow> ('e, 'b list) Result \<times> 's" where
  "traverse_loop f as i out s =
     (if i < length as then
        (let (e, s') = f i (as ! i) s in
         if isFailure e then (Failure (failure e), s')
         else traverse_loop f as (i + 1) (out @ [success e]) s')
      else (of' out, s))"
  by pat_completeness auto
termination
  by (relation "measure (\<lambda>(f, as, i, out, s). length as - i)") auto

declare traverse_loop.simps [simp del]

definition traverseNonEmptyReadonlyArrayWithIndex ::
  "(nat \<Rightarrow> 'a \<Rightarrow> 's \<Rightarrow> ('e, 'b) Result \<times> 's) \<Rightarrow> 'a list \<Rightarrow> 's
     \<Rightarrow> ('e, 'b list) Result \<times> 's" where
  "traverseNonEmptyReadonlyArrayWithIndex f as s =
     (let (e, s') = f 0 (head as) s in
      if isFailure e then (Failure (failure e), s')
      else traverse_loop f as 1 [success e] s')"

definition traverseReadonlyArrayWithIndex ::
  "(nat \<Rightarrow> 'a \<Rightarrow> 's \<Rightarrow> ('e, 'b) Result \<times> 's) \<Rightarrow> 'a list \<Rightarrow> 's
     \<Rightarrow> ('e, 'b list) Result \<times> 's" where
  "traverseReadonlyArrayWithIndex f as s =
     (if isNonEmpty as then traverseNonEmptyReadonlyArrayWithIndex f as s else (Zip, s))"

text \<open>\<^verbatim>\<open>flow(SK, f)\<close> is \<^verbatim>\<open>(i, a) => f(SK(i, a))\<close>.\<close>

definition traverseNonEmptyReadonlyArray ::
  "('a \<Rightarrow> 's \<Rightarrow> ('e, 'b) Result \<times> 's) \<Rightarrow> 'a list \<Rightarrow> 's \<Rightarrow> ('e, 'b list) Result \<times> 's" where
  "traverseNonEmptyReadonlyArray f = traverseNonEmptyReadonlyArrayWithIndex (\<lambda>i a. f (SK i a))"

definition traverseReadonlyArray ::
  "('a \<Rightarrow> 's \<Rightarrow> ('e, 'b) Result \<times> 's) \<Rightarrow> 'a list \<Rightarrow> 's \<Rightarrow> ('e, 'b list) Result \<times> 's" where
  "traverseReadonlyArray f = traverseReadonlyArrayWithIndex (\<lambda>i a. f (SK i a))"

text \<open>\<^verbatim>\<open>identity\<close> has no effect: it returns the state as it got it.\<close>

definition sequenceReadonlyArray ::
  "('e, 'a) Result list \<Rightarrow> 's \<Rightarrow> ('e, 'a list) Result \<times> 's" where
  "sequenceReadonlyArray = traverseReadonlyArray (\<lambda>a s. (identity a, s))"

subsection \<open>Combinators called with functions that throw\<close>
















section \<open>Vocabulary of the properties\<close>

text \<open>
  \<open>effects f as i j s\<close> is the state after the calls \<^verbatim>\<open>f(i, as[i])\<close>, ...,
  \<^verbatim>\<open>f(j-1, as[j-1])\<close>, made in this order from the state \<open>s\<close>, and
  \<open>outcome f as i s n\<close> is what the call at index \<open>n\<close> returns when exactly the calls
  at \<open>i\<close>, ..., \<open>n - 1\<close> came before it.
\<close>

definition effects ::
  "(nat \<Rightarrow> 'a \<Rightarrow> 's \<Rightarrow> 'r \<times> 's) \<Rightarrow> 'a list \<Rightarrow> nat \<Rightarrow> nat \<Rightarrow> 's \<Rightarrow> 's" where
  "effects f as i j s = fold (\<lambda>n st. snd (f n (as ! n) st)) [i..<j] s"

definition outcome ::
  "(nat \<Rightarrow> 'a \<Rightarrow> 's \<Rightarrow> 'r \<times> 's) \<Rightarrow> 'a list \<Rightarrow> nat \<Rightarrow> 's \<Rightarrow> nat \<Rightarrow> 'r" where
  "outcome f as i s n = fst (f n (as ! n) (effects f as i n s))"

text \<open>
  Running from index 0 in the state \<open>s\<close>, the call at index \<open>k\<close> is the first that
  returns a Failure, and its payload is \<open>e\<close>.
\<close>

definition first_failure_at ::
  "(nat \<Rightarrow> 'a \<Rightarrow> 's \<Rightarrow> ('e, 'b) Result \<times> 's) \<Rightarrow> 'a list \<Rightarrow> 's \<Rightarrow> nat \<Rightarrow> 'e \<Rightarrow> bool" where
  "first_failure_at f as s k e \<longleftrightarrow>
     k < length as \<and> list_all (\<lambda>n. isSuccess (outcome f as 0 s n)) [0..<k]
     \<and> outcome f as 0 s k = Failure e"

text \<open>Running from index 0 in the state \<open>s\<close>, every call returns a Success.\<close>

definition all_succeed ::
  "(nat \<Rightarrow> 'a \<Rightarrow> 's \<Rightarrow> ('e, 'b) Result \<times> 's) \<Rightarrow> 'a list \<Rightarrow> 's \<Rightarrow> bool" where
  "all_succeed f as s \<longleftrightarrow> list_all (\<lambda>n. isSuccess (outcome f as 0 s n)) [0..<length as]"


section \<open>Example inputs\<close>

text \<open>
  The spec's test of the array traversal: \<^verbatim>\<open>f\<close> fails with \<^verbatim>\<open>"e"\<close> on the empty
  string and succeeds otherwise, and logs each call (its index, or the length of its
  argument) in the state.
\<close>

definition example_f :: "nat \<Rightarrow> string \<Rightarrow> nat list \<Rightarrow> (string, nat) Result \<times> nat list" where
  "example_f i a log = (if a = [] then fail ''e'' else of' (length a), log @ [i])"

definition example_g :: "string \<Rightarrow> nat list \<Rightarrow> (string, nat) Result \<times> nat list" where
  "example_g a log = (if a = [] then fail ''e'' else of' (length a), log @ [length a])"

text \<open>A step function for \<^verbatim>\<open>flatMapRec\<close>: count up to 3, then stop; fail at 7.\<close>

definition example_step :: "nat \<Rightarrow> (string, (nat, nat) Result) Result" where
  "example_step n =
     (if n = 7 then fail ''seven''
      else if n < 3 then of' (fail (n + 1))
      else of' (of' (10 * n)))"




section \<open>Properties\<close>

lemma isSuccess_iff: "isSuccess r \<longleftrightarrow> \<not> isFailure r"
  by (cases r) simp_all

lemma isFailure_fail: "isFailure (fail e)"
  by (simp add: fail_def)

lemma not_isFailure_of': "\<not> isFailure (of' a)"
  by (simp add: of'_def)

lemma failure_fail: "failure (fail e) = e"
  by (simp add: fail_def)

lemma success_of': "success (of' a) = a"
  by (simp add: of'_def)

lemma map'_of': "map' f (of' a) = of' (f a)"
  by (simp add: map'_def bifunctor_map_def mapBoth_def not_isFailure_of' success_of')

lemma map'_fail: "map' f (fail e) = fail e"
  by (simp add: map'_def bifunctor_map_def mapBoth_def isFailure_fail failure_fail identity_def)

lemma flatMap_fail: "flatMap f (fail e) = fail e"
  by (simp add: flatMap_def fail_def)

lemma flatMap_of': "flatMap f (of' a) = f a"
  by (simp add: flatMap_def of'_def)

lemma flatMap_chain_fail: "foldl (\<lambda>r g. flatMap g r) (fail e) fs = fail e"
  by (induction fs) (simp_all add: flatMap_fail)

subsection \<open>flatMap\<close>

text \<open>
  Claim C8. \<^verbatim>\<open>flatMap\<close> short-circuits on failure: \<^verbatim>\<open>flatMap(f)(fail(e))\<close> is
  \<^verbatim>\<open>fail(e)\<close> whatever \<^verbatim>\<open>f\<close> is; a Failure at the head of a chain of any number of
  \<^verbatim>\<open>flatMap\<close>s comes out of the chain unchanged; and \<^verbatim>\<open>flatMap(f)(of(a))\<close> is
  \<^verbatim>\<open>f(a)\<close> as it is.
\<close>

theorem C8_flatMap_short_circuit:
  "flatMap f (fail e) = fail e
   \<and> foldl (\<lambda>r g. flatMap g r) (fail e) fs = fail e
   \<and> flatMap f (of' a) = f a"
  by (simp add: flatMap_fail flatMap_of' flatMap_chain_fail)

subsection \<open>orElse\<close>

text \<open>
  Claim C5. \<^verbatim>\<open>orElse(fallback)(self)\<close> is \<^verbatim>\<open>self\<close> when \<^verbatim>\<open>self\<close> is a Success,
  and otherwise \<^verbatim>\<open>fallback\<close> verbatim, also when \<^verbatim>\<open>fallback\<close> is a Failure: the
  last failure wins. The three worked examples of the spec are the last three conjuncts.
\<close>

theorem C5_orElse_last_failure_wins:
  "orElse fallback (of' a) = of' a
   \<and> orElse fallback (fail e) = fallback
   \<and> orElse (fail ''b'') (fail ''a'') = fail ''b''
   \<and> orElse (of' (2::int)) (fail ''a'') = of' 2
   \<and> orElse x (of' (1::int)) = of' 1"
  by (simp add: orElse_def fail_def of'_def)

subsection \<open>ap\<close>

lemma ap_Failure_fab: "ap fa (fail e1) = fail e1"
  by (simp add: ap_def flattenable_ap_def flatMap_fail)

lemma ap_of'_fab: "ap fa (of' g) = map' g fa"
  by (simp add: ap_def flattenable_ap_def flatMap_of')

text \<open>
  Claim C4. The default \<^verbatim>\<open>ap\<close> is fail-fast and left-to-right. A Failure on the
  function side \<^verbatim>\<open>fab\<close> is returned whatever \<^verbatim>\<open>fa\<close> is, in particular
  \<^verbatim>\<open>ap(fail(e2))(fail(e1))\<close> is \<^verbatim>\<open>fail(e1)\<close>; with a function on that side a
  Failure of \<^verbatim>\<open>fa\<close> is returned; with both Success the function is applied to the
  payload. (\<open>ap fa fab\<close> is \<^verbatim>\<open>ap(fa)(fab)\<close>.)
\<close>

theorem C4_ap_fail_fast:
  "ap fa (fail e1) = fail e1
   \<and> ap (fail e2) (fail e1) = fail e1
   \<and> ap (fail e2) (of' g) = fail e2
   \<and> ap (of' a) (of' g) = of' (g a)"
  by (simp add: ap_Failure_fab ap_of'_fab map'_fail map'_of')

subsection \<open>The validated instances\<close>

text \<open>
  Claim C3. The \<^verbatim>\<open>ap\<close> of \<^verbatim>\<open>getValidatedApplicative(S)\<close>: with both sides a
  Failure the result is one Failure whose payload is the two payloads combined by
  \<^verbatim>\<open>S\<close>, as \<^verbatim>\<open>S.combine(fa.failure)(fab.failure)\<close>; for string concatenation with
  a separator, \<^verbatim>\<open>ap(fail("b"))(fail("a"))\<close> is \<^verbatim>\<open>fail("a" + sep + "b")\<close>. With one
  side a Failure, that Failure is returned; with both Success the function is applied.
\<close>

theorem C3_getValidatedApplicative_ap:
  "getValidatedApplicative_ap S (fail e2) (fail e1) = fail (combine S e2 e1)
   \<and> getValidatedApplicative_ap (string_Semigroup_intercalate sep) (fail ''b'') (fail ''a'')
       = fail (''a'' @ sep @ ''b'')
   \<and> getValidatedApplicative_ap S (of' a) (fail e1) = fail e1
   \<and> getValidatedApplicative_ap S (fail e2) (of' g) = fail e2
   \<and> getValidatedApplicative_ap S (of' a) (of' g) = of' (g a)"
  by (simp add: getValidatedApplicative_ap_def string_Semigroup_intercalate_def
      fail_def of'_def)

text \<open>
  Claim C1. The \<^verbatim>\<open>orElse\<close> of \<^verbatim>\<open>getValidatedAlt(S)\<close>: with \<^verbatim>\<open>self\<close> and the
  fallback both a Failure the result is a Failure whose payload is
  \<^verbatim>\<open>S.combine(fallbackFailure)(selfFailure)\<close>: the fallback's payload is the first
  operand of \<^verbatim>\<open>combine\<close> and the payload of \<^verbatim>\<open>self\<close> the second. A Success
  \<^verbatim>\<open>self\<close> is returned unchanged whatever the fallback is, so a failed fallback has
  no part in the result. (\<open>getValidatedAlt_orElse S fallback self\<close> is
  \<^verbatim>\<open>getValidatedAlt(S).orElse(fallback)(self)\<close>.)
\<close>

theorem C1_getValidatedAlt_orElse:
  "getValidatedAlt_orElse S (fail fallbackFailure) (fail selfFailure)
     = fail (combine S fallbackFailure selfFailure)
   \<and> getValidatedAlt_orElse S fallback (of' a) = of' a
   \<and> getValidatedAlt_orElse S (fail fallbackFailure) (of' a) = of' a
   \<and> getValidatedAlt_orElse S (of' b) (fail selfFailure) = of' b
   \<and> getValidatedAlt_orElse (string_Semigroup_intercalate '', '')
         (fail ''not a number'') (fail ''not a string'')
       = fail ''not a string, not a number''"
  by (simp add: getValidatedAlt_orElse_def string_Semigroup_intercalate_def fail_def of'_def)

subsection \<open>separate\<close>

text \<open>
  Claim C7. \<^verbatim>\<open>separate(e)(self)\<close> returns a pair: an outer Failure gives that
  Failure in both components; a Success of an inner \<^verbatim>\<open>Failure(b)\<close> gives
  \<^verbatim>\<open>(Success(b), Failure(e))\<close>; a Success of an inner \<^verbatim>\<open>Success(c)\<close> gives
  \<^verbatim>\<open>(Failure(e), Success(c))\<close>.
\<close>

theorem C7_separate:
  "separate e (Failure x) = (Failure x, Failure x)
   \<and> separate e (Success (Failure b)) = (Success b, Failure e)
   \<and> separate e (Success (Success c)) = (Failure e, Success c)"
  by (simp add: separate_def fail_def of'_def)

subsection \<open>flatMapRec\<close>

lemma flatMapRec_Failure: "f a = Failure e \<Longrightarrow> flatMapRec f a = Some (fail e)"
  unfolding flatMapRec_def
  by (subst tailRec.simps) (simp add: fail_def of'_def)

lemma flatMapRec_stop: "f a = Success (Success b) \<Longrightarrow> flatMapRec f a = Some (of' b)"
  unfolding flatMapRec_def
  by (subst tailRec.simps) (simp add: fail_def of'_def)

lemma flatMapRec_continue: "f a = Success (Failure a') \<Longrightarrow> flatMapRec f a = flatMapRec f a'"
  unfolding flatMapRec_def
  by (subst tailRec.simps) (simp add: fail_def of'_def)

text \<open>
  Claim C6. \<^verbatim>\<open>flatMapRec(f)(a)\<close> iterates the step function: when \<^verbatim>\<open>f(a)\<close> is an
  outer \<^verbatim>\<open>Failure(e)\<close> the computation stops and returns \<^verbatim>\<open>fail(e)\<close>; when it is a
  Success wrapping an inner \<^verbatim>\<open>Failure(a')\<close> the computation goes on as
  \<^verbatim>\<open>flatMapRec(f)(a')\<close>; when it is a Success wrapping an inner \<^verbatim>\<open>Success(b)\<close> the
  computation stops and returns \<^verbatim>\<open>of(b)\<close>. (\<open>Some r\<close>: the loop returns \<open>r\<close>.)
\<close>

theorem C6_flatMapRec_steps:
  "(f a = Failure e \<longrightarrow> flatMapRec f a = Some (fail e))
   \<and> (f a = Success (Failure a') \<longrightarrow> flatMapRec f a = flatMapRec f a')
   \<and> (f a = Success (Success b) \<longrightarrow> flatMapRec f a = Some (of' b))"
  by (simp add: flatMapRec_Failure flatMapRec_stop flatMapRec_continue)

theorem C6_flatMapRec_steps_witness:
  "flatMapRec example_step 7 = Some (fail ''seven'')
   \<and> flatMapRec example_step 2 = flatMapRec example_step 3
   \<and> flatMapRec example_step 3 = Some (of' 30)"
proof -
  have a: "example_step 7 = Failure ''seven''"
    by (simp add: example_step_def fail_def)
  have b: "example_step 2 = Success (Failure 3)"
    by (simp add: example_step_def fail_def of'_def)
  have c: "example_step 3 = Success (Success 30)"
    by (simp add: example_step_def of'_def)
  from C6_flatMapRec_steps[of example_step 7 "''seven''"] a
    C6_flatMapRec_steps[of example_step 2 _ 3] b
    C6_flatMapRec_steps[of example_step 3 _ _ 30] c
  show ?thesis
    by simp
qed

subsection \<open>fromThrowable and liftThrowable\<close>







subsection \<open>Array traversal\<close>

lemma effects_same: "effects f as i i s = s"
  by (simp add: effects_def)

lemma effects_step: "i < j \<Longrightarrow> effects f as i j s = effects f as (Suc i) j (snd (f i (as ! i) s))"
  by (simp add: effects_def upt_conv_Cons)

lemma effects_Suc: "i \<le> j \<Longrightarrow> effects f as i (Suc j) s = snd (f j (as ! j) (effects f as i j s))"
  by (simp add: effects_def)

lemma outcome_same: "outcome f as i s i = fst (f i (as ! i) s)"
  by (simp add: outcome_def effects_same)

lemma outcome_step: "i < n \<Longrightarrow> outcome f as i s n = outcome f as (Suc i) (snd (f i (as ! i) s)) n"
  by (simp add: outcome_def effects_step)

lemma traverse_loop_fails:
  "i \<le> k \<Longrightarrow> k < length as \<Longrightarrow> \<forall>n. i \<le> n \<and> n < k \<longrightarrow> isSuccess (outcome f as i s n) \<Longrightarrow>
   outcome f as i s k = Failure e \<Longrightarrow>
   traverse_loop f as i out s = (Failure e, effects f as i (Suc k) s)"
proof (induction f as i out s rule: traverse_loop.induct)
  case (1 f as i out s)
  obtain r s' where call: "f i (as ! i) s = (r, s')"
    by (cases "f i (as ! i) s")
  from "1.prems" have less: "i < length as"
    by simp
  show ?case
  proof (cases "i = k")
    case True
    with "1.prems"(4) call have "r = Failure e"
      by (simp add: outcome_same)
    with True call less show ?thesis
      by (subst traverse_loop.simps) (simp add: effects_Suc effects_same)
  next
    case False
    with "1.prems"(1) have lt: "i < k"
      by simp
    with "1.prems"(3) have "isSuccess (outcome f as i s i)"
      by simp
    with call have ok: "\<not> isFailure r"
      by (simp add: outcome_same isSuccess_iff)
    have a: "\<forall>n. Suc i \<le> n \<and> n < k \<longrightarrow> isSuccess (outcome f as (Suc i) s' n)"
    proof (intro allI impI)
      fix n
      assume n: "Suc i \<le> n \<and> n < k"
      with "1.prems"(3) have "isSuccess (outcome f as i s n)"
        by simp
      with n call show "isSuccess (outcome f as (Suc i) s' n)"
        by (simp add: outcome_step)
    qed
    have b: "outcome f as (Suc i) s' k = Failure e"
      using "1.prems"(4) lt call by (simp add: outcome_step)
    have "traverse_loop f as (i + 1) (out @ [success r]) s' = (Failure e, effects f as (i + 1) (Suc k) s')"
      using "1.IH"[OF less call[symmetric] refl ok] lt "1.prems"(2) a b by simp
    moreover have "effects f as i (Suc k) s = effects f as (Suc i) (Suc k) s'"
      using lt call by (simp add: effects_step)
    ultimately show ?thesis
      using less call ok by (subst traverse_loop.simps) simp
  qed
qed


lemma traverse_loop_succeeds:
  "i \<le> length as \<Longrightarrow> \<forall>n. i \<le> n \<and> n < length as \<longrightarrow> isSuccess (outcome f as i s n) \<Longrightarrow>
   traverse_loop f as i out s =
     (of' (out @ map (\<lambda>n. success (outcome f as i s n)) [i..<length as]), effects f as i (length as) s)"
proof (induction f as i out s rule: traverse_loop.induct)
  case (1 f as i out s)
  show ?case
  proof (cases "i < length as")
    case False
    with "1.prems"(1) have "i = length as"
      by simp
    then show ?thesis
      by (subst traverse_loop.simps) (simp add: effects_same)
  next
    case True
    obtain r s' where call: "f i (as ! i) s = (r, s')"
      by (cases "f i (as ! i) s")
    from True "1.prems"(2) have "isSuccess (outcome f as i s i)"
      by simp
    with call have ok: "\<not> isFailure r"
      by (simp add: outcome_same isSuccess_iff)
    have a: "\<forall>n. Suc i \<le> n \<and> n < length as \<longrightarrow> isSuccess (outcome f as (Suc i) s' n)"
    proof (intro allI impI)
      fix n
      assume n: "Suc i \<le> n \<and> n < length as"
      with "1.prems"(2) have "isSuccess (outcome f as i s n)"
        by simp
      with n call show "isSuccess (outcome f as (Suc i) s' n)"
        by (simp add: outcome_step)
    qed
    have rec: "traverse_loop f as (i + 1) (out @ [success r]) s' =
        (of' ((out @ [success r]) @ map (\<lambda>n. success (outcome f as (i + 1) s' n)) [i + 1..<length as]),
         effects f as (i + 1) (length as) s')"
      using "1.IH"[OF True call[symmetric] refl ok] True a by simp
    have m: "map (\<lambda>n. success (outcome f as i s n)) [i..<length as] =
        success r # map (\<lambda>n. success (outcome f as (Suc i) s' n)) [Suc i..<length as]"
      using True call by (simp add: upt_conv_Cons outcome_same outcome_step)
    have e: "effects f as i (length as) s = effects f as (Suc i) (length as) s'"
      using True call by (simp add: effects_step)
    show ?thesis
      using True call ok rec m e by (subst traverse_loop.simps) simp
  qed
qed

lemma traverseNonEmpty_as_loop:
  "as \<noteq> [] \<Longrightarrow> traverseNonEmptyReadonlyArrayWithIndex f as s = traverse_loop f as 0 [] s"
  by (subst traverse_loop.simps)
    (simp add: traverseNonEmptyReadonlyArrayWithIndex_def head_def split: prod.splits)

lemma traverseReadonlyArrayWithIndex_as_loop:
  "traverseReadonlyArrayWithIndex f as s = traverse_loop f as 0 [] s"
proof (cases "as = []")
  case True
  then show ?thesis
    by (subst traverse_loop.simps) (simp add: traverseReadonlyArrayWithIndex_def isNonEmpty_def Zip_def)
next
  case False
  then show ?thesis
    by (simp add: traverseReadonlyArrayWithIndex_def isNonEmpty_def traverseNonEmpty_as_loop)
qed

lemma effects_cong:
  "\<forall>n. i \<le> n \<and> n < j \<longrightarrow> as ! n = bs ! n \<Longrightarrow> effects f as i j s = effects f bs i j s"
  unfolding effects_def by (rule fold_cong) simp_all

lemma outcome_cong:
  "i \<le> k \<Longrightarrow> \<forall>n. i \<le> n \<and> n \<le> k \<longrightarrow> as ! n = bs ! n \<Longrightarrow>
   outcome f as i s k = outcome f bs i s k"
  using effects_cong[of i k as bs f s] by (simp add: outcome_def)

lemma take_agree:
  assumes "take (Suc k) bs = take (Suc k) as" and "n \<le> k"
  shows "bs ! n = as ! n"
proof -
  from assms(2) have "bs ! n = take (Suc k) bs ! n" and "as ! n = take (Suc k) as ! n"
    by simp_all
  with assms(1) show ?thesis
    by simp
qed

lemma take_length:
  assumes "take (Suc k) bs = take (Suc k) as" and "k < length as"
  shows "k < length bs"
proof -
  from assms(2) have "length (take (Suc k) as) = Suc k"
    by simp
  with assms(1) have "length (take (Suc k) bs) = Suc k"
    by simp
  then show ?thesis
    by simp
qed

lemma first_failure_at_agree:
  assumes "first_failure_at f as s k e" and "take (Suc k) bs = take (Suc k) as"
  shows "first_failure_at f bs s k e"
proof -
  have eq: "outcome f bs 0 s n = outcome f as 0 s n" if "n \<le> k" for n
    using that take_agree[OF assms(2)] by (intro outcome_cong) simp_all
  from assms show ?thesis
    by (simp add: first_failure_at_def take_length eq list_all_iff)
qed

lemma loop_first_failure:
  assumes "first_failure_at f as s k e"
  shows "traverse_loop f as 0 [] s = (Failure e, effects f as 0 (Suc k) s)"
  using assms by (intro traverse_loop_fails) (simp_all add: first_failure_at_def list_all_iff)

lemma loop_agree:
  assumes "first_failure_at f as s k e" and "take (Suc k) bs = take (Suc k) as"
  shows "traverse_loop f bs 0 [] s = traverse_loop f as 0 [] s"
proof -
  have "effects f bs 0 (Suc k) s = effects f as 0 (Suc k) s"
    using take_agree[OF assms(2)] by (intro effects_cong) simp
  with loop_first_failure[OF assms(1)] loop_first_failure[OF first_failure_at_agree[OF assms]]
  show ?thesis
    by simp
qed

lemma loop_all_succeed:
  assumes "all_succeed f as s"
  shows "traverse_loop f as 0 [] s =
    (of' (map (\<lambda>n. success (outcome f as 0 s n)) [0..<length as]), effects f as 0 (length as) s)"
  using assms traverse_loop_succeeds[of 0 as f s "[]"] by (simp add: all_succeed_def list_all_iff)

lemma first_failure_at_nonempty: "first_failure_at f as s k e \<Longrightarrow> as \<noteq> []"
  by (auto simp: first_failure_at_def)

lemma traverseReadonlyArray_as_loop:
  "traverseReadonlyArray g as s = traverse_loop (\<lambda>i. g) as 0 [] s"
  by (simp add: traverseReadonlyArray_def SK_def traverseReadonlyArrayWithIndex_as_loop)

lemma traverseNonEmptyReadonlyArray_as_loop:
  "as \<noteq> [] \<Longrightarrow> traverseNonEmptyReadonlyArray g as s = traverse_loop (\<lambda>i. g) as 0 [] s"
  by (simp add: traverseNonEmptyReadonlyArray_def SK_def traverseNonEmpty_as_loop)

lemma sequenceReadonlyArray_as_loop:
  "sequenceReadonlyArray rs s = traverse_loop (\<lambda>i a st. (a, st)) rs 0 [] s"
  by (simp add: sequenceReadonlyArray_def identity_def traverseReadonlyArray_as_loop)

lemma fold_no_effect: "fold (\<lambda>n st. st) xs s = s"
  by (induction xs) simp_all

lemma effects_pure: "effects (\<lambda>i a st. (h i a, st)) as i j s = s"
  by (simp add: effects_def fold_no_effect)

lemma outcome_pure: "outcome (\<lambda>i a st. (h i a, st)) as i s n = h n (as ! n)"
  by (simp add: outcome_def)

lemma list_all_take_nth:
  assumes "k \<le> length rs"
  shows "list_all P (take k rs) \<longleftrightarrow> list_all (\<lambda>n. P (rs ! n)) [0..<k]"
proof -
  have "take k rs = map (\<lambda>n. rs ! n) [0..<k]"
    using assms by (simp add: list_eq_iff_nth_eq)
  then show ?thesis
    by (simp add: list_all_iff)
qed

lemma first_failure_at_sequence:
  "first_failure_at (\<lambda>i a st. (a, st)) rs s k e \<longleftrightarrow>
     k < length rs \<and> list_all isSuccess (take k rs) \<and> rs ! k = Failure e"
proof (cases "k < length rs")
  case True
  then show ?thesis
    using list_all_take_nth[of k rs isSuccess]
    by (simp add: first_failure_at_def outcome_pure)
next
  case False
  then show ?thesis
    by (simp add: first_failure_at_def)
qed

lemma all_succeed_sequence:
  "all_succeed (\<lambda>i a st. (a, st)) rs s \<longleftrightarrow> list_all isSuccess rs"
  using list_all_take_nth[of "length rs" rs isSuccess]
  by (simp add: all_succeed_def outcome_pure)

lemma map_success_nth: "map (\<lambda>n. success (rs ! n)) [0..<length rs] = map success rs"
  by (rule nth_equalityI) simp_all

text \<open>
  Claim C2. The array traversal calls \<^verbatim>\<open>f\<close> index by index from the left. When the
  call at index \<open>k\<close> is the first to return a Failure, that Failure is the result and
  the calls made are exactly those at the indices \<open>0\<close>, ..., \<open>k\<close>, in this order: no
  effect of \<^verbatim>\<open>f\<close> on a later element took place, and the result is the same for
  every array with the same elements up to index \<open>k\<close>. When every call returns a
  Success, the result is a Success of the payloads in their order, after one call for
  each index. This holds for \<^verbatim>\<open>traverseNonEmptyReadonlyArrayWithIndex\<close> and for each
  of its derivatives: \<^verbatim>\<open>traverseReadonlyArrayWithIndex\<close>, then
  \<^verbatim>\<open>traverseNonEmptyReadonlyArray\<close> and \<^verbatim>\<open>traverseReadonlyArray\<close>, whose \<^verbatim>\<open>f\<close>
  gets no index, and \<^verbatim>\<open>sequenceReadonlyArray\<close>, whose elements are the Results
  themselves and which has no effect on the state.
\<close>

theorem C2_traverse_array_short_circuits:
  "(first_failure_at f as s k e \<longrightarrow>
      traverseNonEmptyReadonlyArrayWithIndex f as s = (Failure e, effects f as 0 (Suc k) s))
   \<and> (first_failure_at f as s k e \<and> take (Suc k) as' = take (Suc k) as \<longrightarrow>
      traverseNonEmptyReadonlyArrayWithIndex f as' s = traverseNonEmptyReadonlyArrayWithIndex f as s)
   \<and> (as \<noteq> [] \<and> all_succeed f as s \<longrightarrow>
      traverseNonEmptyReadonlyArrayWithIndex f as s =
        (of' (map (\<lambda>n. success (outcome f as 0 s n)) [0..<length as]),
         effects f as 0 (length as) s))
   \<and> (first_failure_at f as s k e \<longrightarrow>
      traverseReadonlyArrayWithIndex f as s = (Failure e, effects f as 0 (Suc k) s))
   \<and> (first_failure_at f as s k e \<and> take (Suc k) as' = take (Suc k) as \<longrightarrow>
      traverseReadonlyArrayWithIndex f as' s = traverseReadonlyArrayWithIndex f as s)
   \<and> (all_succeed f as s \<longrightarrow>
      traverseReadonlyArrayWithIndex f as s =
        (of' (map (\<lambda>n. success (outcome f as 0 s n)) [0..<length as]),
         effects f as 0 (length as) s))
   \<and> (first_failure_at (\<lambda>i. g) as s k e \<longrightarrow>
      traverseNonEmptyReadonlyArray g as s = (Failure e, effects (\<lambda>i. g) as 0 (Suc k) s))
   \<and> (first_failure_at (\<lambda>i. g) as s k e \<and> take (Suc k) as' = take (Suc k) as \<longrightarrow>
      traverseNonEmptyReadonlyArray g as' s = traverseNonEmptyReadonlyArray g as s)
   \<and> (as \<noteq> [] \<and> all_succeed (\<lambda>i. g) as s \<longrightarrow>
      traverseNonEmptyReadonlyArray g as s =
        (of' (map (\<lambda>n. success (outcome (\<lambda>i. g) as 0 s n)) [0..<length as]),
         effects (\<lambda>i. g) as 0 (length as) s))
   \<and> (first_failure_at (\<lambda>i. g) as s k e \<longrightarrow>
      traverseReadonlyArray g as s = (Failure e, effects (\<lambda>i. g) as 0 (Suc k) s))
   \<and> (first_failure_at (\<lambda>i. g) as s k e \<and> take (Suc k) as' = take (Suc k) as \<longrightarrow>
      traverseReadonlyArray g as' s = traverseReadonlyArray g as s)
   \<and> (all_succeed (\<lambda>i. g) as s \<longrightarrow>
      traverseReadonlyArray g as s =
        (of' (map (\<lambda>n. success (outcome (\<lambda>i. g) as 0 s n)) [0..<length as]),
         effects (\<lambda>i. g) as 0 (length as) s))
   \<and> (k < length rs \<and> list_all isSuccess (take k rs) \<and> rs ! k = Failure e \<longrightarrow>
      sequenceReadonlyArray rs s = (Failure e, s))
   \<and> (k < length rs \<and> list_all isSuccess (take k rs) \<and> rs ! k = Failure e
        \<and> take (Suc k) rs' = take (Suc k) rs \<longrightarrow>
      sequenceReadonlyArray rs' s = sequenceReadonlyArray rs s)
   \<and> (list_all isSuccess rs \<longrightarrow>
      sequenceReadonlyArray rs s = (of' (map success rs), s))"
proof (intro conjI impI)
  assume "first_failure_at f as s k e"
  then show "traverseNonEmptyReadonlyArrayWithIndex f as s = (Failure e, effects f as 0 (Suc k) s)"
    using loop_first_failure[of f as s k e] first_failure_at_nonempty[of f as s k e]
    by (simp add: traverseNonEmpty_as_loop)
next
  assume "first_failure_at f as s k e \<and> take (Suc k) as' = take (Suc k) as"
  then show "traverseNonEmptyReadonlyArrayWithIndex f as' s = traverseNonEmptyReadonlyArrayWithIndex f as s"
    using loop_agree[of f as s k e as'] first_failure_at_agree[of f as s k e as']
      first_failure_at_nonempty[of f as s k e] first_failure_at_nonempty[of f as' s k e]
    by (simp add: traverseNonEmpty_as_loop)
next
  assume "as \<noteq> [] \<and> all_succeed f as s"
  then show "traverseNonEmptyReadonlyArrayWithIndex f as s =
        (of' (map (\<lambda>n. success (outcome f as 0 s n)) [0..<length as]),
         effects f as 0 (length as) s)"
    using loop_all_succeed[of f as s]
    by (simp add: traverseNonEmpty_as_loop)
next
  assume "first_failure_at f as s k e"
  then show "traverseReadonlyArrayWithIndex f as s = (Failure e, effects f as 0 (Suc k) s)"
    using loop_first_failure[of f as s k e] first_failure_at_nonempty[of f as s k e]
    by (simp add: traverseReadonlyArrayWithIndex_as_loop)
next
  assume "first_failure_at f as s k e \<and> take (Suc k) as' = take (Suc k) as"
  then show "traverseReadonlyArrayWithIndex f as' s = traverseReadonlyArrayWithIndex f as s"
    using loop_agree[of f as s k e as'] first_failure_at_agree[of f as s k e as']
      first_failure_at_nonempty[of f as s k e] first_failure_at_nonempty[of f as' s k e]
    by (simp add: traverseReadonlyArrayWithIndex_as_loop)
next
  assume "all_succeed f as s"
  then show "traverseReadonlyArrayWithIndex f as s =
        (of' (map (\<lambda>n. success (outcome f as 0 s n)) [0..<length as]),
         effects f as 0 (length as) s)"
    using loop_all_succeed[of f as s]
    by (simp add: traverseReadonlyArrayWithIndex_as_loop)
next
  assume "first_failure_at (\<lambda>i. g) as s k e"
  then show "traverseNonEmptyReadonlyArray g as s = (Failure e, effects (\<lambda>i. g) as 0 (Suc k) s)"
    using loop_first_failure[of "(\<lambda>i. g)" as s k e] first_failure_at_nonempty[of "(\<lambda>i. g)" as s k e]
    by (simp add: traverseNonEmptyReadonlyArray_as_loop)
next
  assume "first_failure_at (\<lambda>i. g) as s k e \<and> take (Suc k) as' = take (Suc k) as"
  then show "traverseNonEmptyReadonlyArray g as' s = traverseNonEmptyReadonlyArray g as s"
    using loop_agree[of "(\<lambda>i. g)" as s k e as'] first_failure_at_agree[of "(\<lambda>i. g)" as s k e as']
      first_failure_at_nonempty[of "(\<lambda>i. g)" as s k e] first_failure_at_nonempty[of "(\<lambda>i. g)" as' s k e]
    by (simp add: traverseNonEmptyReadonlyArray_as_loop)
next
  assume "as \<noteq> [] \<and> all_succeed (\<lambda>i. g) as s"
  then show "traverseNonEmptyReadonlyArray g as s =
        (of' (map (\<lambda>n. success (outcome (\<lambda>i. g) as 0 s n)) [0..<length as]),
         effects (\<lambda>i. g) as 0 (length as) s)"
    using loop_all_succeed[of "(\<lambda>i. g)" as s]
    by (simp add: traverseNonEmptyReadonlyArray_as_loop)
next
  assume "first_failure_at (\<lambda>i. g) as s k e"
  then show "traverseReadonlyArray g as s = (Failure e, effects (\<lambda>i. g) as 0 (Suc k) s)"
    using loop_first_failure[of "(\<lambda>i. g)" as s k e] first_failure_at_nonempty[of "(\<lambda>i. g)" as s k e]
    by (simp add: traverseReadonlyArray_as_loop)
next
  assume "first_failure_at (\<lambda>i. g) as s k e \<and> take (Suc k) as' = take (Suc k) as"
  then show "traverseReadonlyArray g as' s = traverseReadonlyArray g as s"
    using loop_agree[of "(\<lambda>i. g)" as s k e as'] first_failure_at_agree[of "(\<lambda>i. g)" as s k e as']
      first_failure_at_nonempty[of "(\<lambda>i. g)" as s k e] first_failure_at_nonempty[of "(\<lambda>i. g)" as' s k e]
    by (simp add: traverseReadonlyArray_as_loop)
next
  assume "all_succeed (\<lambda>i. g) as s"
  then show "traverseReadonlyArray g as s =
        (of' (map (\<lambda>n. success (outcome (\<lambda>i. g) as 0 s n)) [0..<length as]),
         effects (\<lambda>i. g) as 0 (length as) s)"
    using loop_all_succeed[of "(\<lambda>i. g)" as s]
    by (simp add: traverseReadonlyArray_as_loop)
next
  assume "k < length rs \<and> list_all isSuccess (take k rs) \<and> rs ! k = Failure e"
  then show "sequenceReadonlyArray rs s = (Failure e, s)"
    using loop_first_failure[of "\<lambda>i a st. (a, st)" rs s k e]
    by (simp add: sequenceReadonlyArray_as_loop first_failure_at_sequence effects_pure)
next
  assume "k < length rs \<and> list_all isSuccess (take k rs) \<and> rs ! k = Failure e
        \<and> take (Suc k) rs' = take (Suc k) rs"
  then show "sequenceReadonlyArray rs' s = sequenceReadonlyArray rs s"
    using loop_agree[of "\<lambda>i a st. (a, st)" rs s k e rs']
    by (simp add: sequenceReadonlyArray_as_loop first_failure_at_sequence)
next
  assume "list_all isSuccess rs"
  then show "sequenceReadonlyArray rs s = (of' (map success rs), s)"
    using loop_all_succeed[of "\<lambda>i a st. (a, st)" rs s]
    by (simp add: sequenceReadonlyArray_as_loop all_succeed_sequence effects_pure outcome_pure
        map_success_nth)
qed

theorem C2_traverse_array_short_circuits_witness:
  "traverseNonEmptyReadonlyArrayWithIndex example_f [''a'', '''', ''c''] [] = (Failure ''e'', [0, 1])
   \<and> traverseNonEmptyReadonlyArrayWithIndex example_f [''a'', '''', ''x'', ''y''] []
       = traverseNonEmptyReadonlyArrayWithIndex example_f [''a'', '''', ''c''] []
   \<and> traverseNonEmptyReadonlyArrayWithIndex example_f [''a'', ''bc''] [] = (Success [1, 2], [0, 1])
   \<and> traverseReadonlyArrayWithIndex example_f [''a'', '''', ''c''] [] = (Failure ''e'', [0, 1])
   \<and> traverseReadonlyArrayWithIndex example_f [''a'', '''', ''x'', ''y''] []
       = traverseReadonlyArrayWithIndex example_f [''a'', '''', ''c''] []
   \<and> traverseReadonlyArrayWithIndex example_f [''a'', ''bc''] [] = (Success [1, 2], [0, 1])
   \<and> traverseNonEmptyReadonlyArray example_g [''a'', '''', ''c''] [] = (Failure ''e'', [1, 0])
   \<and> traverseNonEmptyReadonlyArray example_g [''a'', '''', ''x'', ''y''] []
       = traverseNonEmptyReadonlyArray example_g [''a'', '''', ''c''] []
   \<and> traverseNonEmptyReadonlyArray example_g [''a'', ''bc''] [] = (Success [1, 2], [1, 2])
   \<and> traverseReadonlyArray example_g [''a'', '''', ''c''] [] = (Failure ''e'', [1, 0])
   \<and> traverseReadonlyArray example_g [''a'', '''', ''x'', ''y''] []
       = traverseReadonlyArray example_g [''a'', '''', ''c''] []
   \<and> traverseReadonlyArray example_g [''a'', ''bc''] [] = (Success [1, 2], [1, 2])
   \<and> sequenceReadonlyArray [Success (1::nat), Failure ''e'', Success 3] ([]::nat list)
       = (Failure ''e'', [])
   \<and> sequenceReadonlyArray [Success (1::nat), Failure ''e''] ([]::nat list)
       = sequenceReadonlyArray [Success 1, Failure ''e'', Success 3] []
   \<and> sequenceReadonlyArray [Success (1::nat), Success 2 :: (string, nat) Result] ([]::nat list)
       = (Success [1, 2], [])"
proof -
  let ?A = "[''a'', '''', ''c'']" and ?A' = "[''a'', '''', ''x'', ''y'']" and ?B = "[''a'', ''bc'']"
  let ?R = "[Success (1::nat), Failure ''e'', Success 3]"
  let ?R' = "[Success (1::nat), Failure ''e'']"
  let ?S = "[Success (1::nat), Success 2 :: (string, nat) Result]"
  have f1: "first_failure_at example_f ?A [] 1 ''e''"
    by code_simp
  have g1: "first_failure_at (\<lambda>i. example_g) ?A [] 1 ''e''"
    by code_simp
  have t: "take (Suc 1) ?A' = take (Suc 1) ?A"
    by simp
  have r1: "1 < length ?R \<and> list_all isSuccess (take 1 ?R) \<and> ?R ! 1 = Failure ''e''"
    by simp
  have rt: "take (Suc 1) ?R' = take (Suc 1) ?R"
    by simp
  have f2: "all_succeed example_f ?B []"
    by code_simp
  have g2: "all_succeed (\<lambda>i. example_g) ?B []"
    by code_simp
  have r2: "list_all isSuccess ?S"
    by simp
  have ne: "?B \<noteq> []"
    by simp
  have e1: "effects example_f ?A 0 (Suc 1) [] = [0, 1]"
    by code_simp
  have e2: "effects (\<lambda>i. example_g) ?A 0 (Suc 1) [] = [1, 0]"
    by code_simp
  have e3: "effects example_f ?B 0 (length ?B) [] = [0, 1]"
    by code_simp
  have e4: "effects (\<lambda>i. example_g) ?B 0 (length ?B) [] = [1, 2]"
    by code_simp
  have m3: "of' (map (\<lambda>n. success (outcome example_f ?B 0 [] n)) [0..<length ?B])
      = (Success [1, 2] :: (string, nat list) Result)"
    by code_simp
  have m4: "of' (map (\<lambda>n. success (outcome (\<lambda>i. example_g) ?B 0 [] n)) [0..<length ?B])
      = (Success [1, 2] :: (string, nat list) Result)"
    by code_simp
  have m5: "of' (map success ?S) = (Success [1, 2] :: (string, nat list) Result)"
    by (simp add: of'_def)
  note failing =
    C2_traverse_array_short_circuits [of example_f ?A "[]" 1 "''e''" ?A' example_g ?R ?R']
  note succeeding =
    C2_traverse_array_short_circuits [of example_f ?B "[]" 1 "''e''" ?A' example_g ?S ?R']
  from failing succeeding f1 g1 t r1 rt f2 g2 r2 ne
  show ?thesis
    by (simp only: e1 e2 e3 e4 m3 m4 m5 simp_thms)
qed

text \<open>
  Claim C10. On the empty array \<^verbatim>\<open>traverseReadonlyArrayWithIndex(f)\<close>, and with it
  \<^verbatim>\<open>traverseReadonlyArray\<close> and \<^verbatim>\<open>sequenceReadonlyArray\<close>, returns a Success of the
  empty array for every \<^verbatim>\<open>f\<close>, and the state is the one it started in: \<^verbatim>\<open>f\<close> was
  not called.
\<close>

theorem C10_traverse_empty_array:
  "traverseReadonlyArrayWithIndex f [] s = (of' [], s)
   \<and> traverseReadonlyArray g [] s = (of' [], s)
   \<and> sequenceReadonlyArray [] s = (of' [], s)"
  by (simp add: sequenceReadonlyArray_def traverseReadonlyArray_def
      traverseReadonlyArrayWithIndex_def isNonEmpty_def Zip_def)

end
